theory Spec2Isabelle
  imports Main
begin

section \<open>JavaScript values used by the widget\<close>

text \<open>
  A string-valued property that may be \<open>null\<close> or \<open>undefined\<close> is a \<open>string option\<close>
  (\<open>None\<close> for both). \<open>truthy\<close> is JavaScript's truthiness on such a value: \<open>null\<close>,
  \<open>undefined\<close> and the empty string are falsy.
\<close>

definition truthy :: "string option \<Rightarrow> bool" where
  "truthy v = (case v of None \<Rightarrow> False | Some s \<Rightarrow> s \<noteq> [])"

text \<open>\<open>v || null\<close> on a string-valued property.\<close>

definition orNull :: "string option \<Rightarrow> string option" where
  "orNull v = (if truthy v then v else None)"

text \<open>\<open>v || d\<close> on a string-valued property with a string default.\<close>

definition orDefault :: "string option \<Rightarrow> string \<Rightarrow> string option" where
  "orDefault v d = (if truthy v then v else Some d)"

text \<open>The outcome of awaiting a promise.\<close>

datatype 'a promise = Rejects | Resolves 'a

section \<open>Session management (SESSION-MANAGEMENT.md, class SideDrawerAuth)\<close>

text \<open>
  The access token lives in the host session variable \<open>sdSession\<close>, the refresh token in
  \<open>localStorage\<close>. \<open>expiresAt\<close> is a JavaScript number in milliseconds; \<open>None\<close> stands
  for \<open>NaN\<close>/\<open>undefined\<close>, which \<open>saveTokens\<close> produces when \<open>expires_in\<close> is missing.
\<close>

record session =
  accessToken :: "string option"
  expiresAt :: "int option"
  tokenType :: string

text \<open>The parsed body of a token-endpoint response.\<close>

record tokenData =
  access_token :: "string option"
  expires_in :: "int option"
  refresh_token :: "string option"

text \<open>
  What \<open>response.json()\<close> yields: it rejects on a body that is not JSON; the JSON value
  \<open>null\<close> makes the property reads of \<open>saveTokens\<close> throw; any other value is read
  through its (possibly missing) properties.
\<close>

datatype json_body = NotJson | JsonNull | JsonObject tokenData

text \<open>\<open>fetch\<close> rejects only on a transport failure; any HTTP status resolves.\<close>

datatype fetch_result = NetworkFailure | Response nat json_body

record oauth_config =
  tokenEndpoint :: string
  oauth_clientId :: string
  oauth_clientSecret :: "string option"
  oauth_audience :: string

record token_request =
  req_url :: string
  grant_type :: string
  req_client_id :: string
  req_client_secret :: "string option"
  req_refresh_token :: string
  req_audience :: string

datatype ui_status = NotShown | Connected | Disconnected

record auth =
  zohoSession :: "session option"
  refreshTokenLS :: "string option"
  status :: ui_status
  fetches :: "token_request list"

text \<open>\<open>const bufferTime = 5 * 60 * 1000; // 5 minutes\<close>\<close>

definition bufferTime :: int where
  "bufferTime = 5 * 60 * 1000"

text \<open>
  \<open>isTokenExpired(expiresAt) { return Date.now() >= (expiresAt - bufferTime); }\<close>
  A comparison with \<open>NaN\<close> is false.
\<close>

definition isTokenExpired :: "int \<Rightarrow> int option \<Rightarrow> bool" where
  "isTokenExpired now e = (case e of None \<Rightarrow> False | Some t \<Rightarrow> now \<ge> t - bufferTime)"

text \<open>
  The class \<open>SideDrawerAuth\<close> is documented by excerpts: \<open>checkConnection\<close>,
  \<open>saveTokens\<close>, \<open>getRefreshToken\<close>, \<open>refreshAccessToken\<close> and \<open>isTokenExpired\<close>
  are given in full, the five methods below are only called.
\<close>

text \<open>
  Modelled from the spec: \<open>getZohoSession\<close>, whose body is missing, reads the access-token
  half of the token store from host-session storage ("accessToken + expiresAt live in
  host-session storage").
\<close>

definition getZohoSession :: "auth \<Rightarrow> session option" where
  "getZohoSession a = zohoSession a"

text \<open>
  Modelled from the spec: \<open>setZohoSession\<close>, whose body is missing, "writes
  accessToken+expiresAt to host-session storage".
\<close>

definition setZohoSession :: "session \<Rightarrow> auth \<Rightarrow> auth" where
  "setZohoSession s a = a\<lparr>zohoSession := Some s\<rparr>"

text \<open>
  Modelled from the spec: \<open>showConnectedStatus\<close>, whose body is missing, puts the
  controller in the state Connected.
\<close>

definition showConnectedStatus :: "auth \<Rightarrow> auth" where
  "showConnectedStatus a = a\<lparr>status := Connected\<rparr>"

text \<open>
  Modelled from the spec: \<open>showDisconnectedStatus\<close>, whose body is missing, puts the
  controller in the state Disconnected.
\<close>

definition showDisconnectedStatus :: "auth \<Rightarrow> auth" where
  "showDisconnectedStatus a = a\<lparr>status := Disconnected\<rparr>"

text \<open>
  Modelled from the spec: \<open>disconnect\<close>, whose body is missing, is "Token Store
  clear(), state = Disconnected", where \<open>clear()\<close> "deletes both halves
  unconditionally".
\<close>

definition disconnect :: "auth \<Rightarrow> auth" where
  "disconnect a = a\<lparr>zohoSession := None, refreshTokenLS := None, status := Disconnected\<rparr>"

text \<open>\<open>getRefreshToken() { return localStorage.getItem(STORAGE_KEYS.refreshToken); }\<close>\<close>

definition getRefreshToken :: "auth \<Rightarrow> string option" where
  "getRefreshToken a = refreshTokenLS a"

text \<open>
  \<open>saveTokens(tokenData)\<close>: the session gets \<open>tokenData.access_token\<close> and
  \<open>Date.now() + tokenData.expires_in * 1000\<close> (\<open>NaN\<close> when \<open>expires_in\<close> is missing);
  the refresh token is overwritten only when the response carries one.
\<close>

definition saveTokens :: "int \<Rightarrow> tokenData \<Rightarrow> auth \<Rightarrow> auth" where
  "saveTokens now td a =
     (let sessionData = \<lparr>accessToken = access_token td,
                          expiresAt = map_option (\<lambda>n. now + n * 1000) (expires_in td),
                          tokenType = ''Bearer''\<rparr>;
          a1 = setZohoSession sessionData a
      in if truthy (refresh_token td) then a1\<lparr>refreshTokenLS := refresh_token td\<rparr> else a1)"

text \<open>The body of the POST that \<open>refreshAccessToken\<close> sends.\<close>

definition refresh_request :: "oauth_config \<Rightarrow> string \<Rightarrow> token_request" where
  "refresh_request cfg rt =
     \<lparr>req_url = tokenEndpoint cfg, grant_type = ''refresh_token'',
      req_client_id = oauth_clientId cfg, req_client_secret = oauth_clientSecret cfg,
      req_refresh_token = rt, req_audience = oauth_audience cfg\<rparr>"

text \<open>
  \<open>refreshAccessToken()\<close>. \<open>net\<close> is the token endpoint as seen through \<open>fetch\<close>;
  \<open>saved_at\<close> is \<open>Date.now()\<close> at the time \<open>saveTokens\<close> runs. Every \<open>fetch\<close> is
  appended to \<open>fetches\<close>. The \<open>try\<close> block has no test of \<open>response.ok\<close> or
  \<open>response.status\<close>: the \<open>catch\<close> runs only when \<open>fetch\<close> rejects, when the body
  is not JSON, or when \<open>saveTokens\<close> throws.
\<close>

definition refreshAccessToken ::
  "oauth_config \<Rightarrow> (token_request \<Rightarrow> fetch_result) \<Rightarrow> int \<Rightarrow> auth \<Rightarrow> auth" where
  "refreshAccessToken cfg net saved_at a =
     (case getRefreshToken a of
        None \<Rightarrow> showDisconnectedStatus a
      | Some rt \<Rightarrow>
          if rt = [] then showDisconnectedStatus a
          else
            (let req = refresh_request cfg rt;
                 a1 = a\<lparr>fetches := fetches a @ [req]\<rparr>
             in case net req of
                  NetworkFailure \<Rightarrow> disconnect a1
                | Response st NotJson \<Rightarrow> disconnect a1
                | Response st JsonNull \<Rightarrow> disconnect a1
                | Response st (JsonObject td) \<Rightarrow> showConnectedStatus (saveTokens saved_at td a1)))"

text \<open>
  \<open>checkConnection()\<close>: \<open>now\<close> is \<open>Date.now()\<close> at the expiry test.
\<close>

definition checkConnection ::
  "oauth_config \<Rightarrow> (token_request \<Rightarrow> fetch_result) \<Rightarrow> int \<Rightarrow> int \<Rightarrow> auth \<Rightarrow> auth" where
  "checkConnection cfg net now saved_at a =
     (case getZohoSession a of
        Some s \<Rightarrow>
          if \<not> isTokenExpired now (expiresAt s) then showConnectedStatus a
          else if truthy (getRefreshToken a) then refreshAccessToken cfg net saved_at a
          else showDisconnectedStatus a
      | None \<Rightarrow>
          if truthy (getRefreshToken a) then refreshAccessToken cfg net saved_at a
          else showDisconnectedStatus a)"

section \<open>Provider API client (class SideDrawerAPI)\<close>

text \<open>
  The client keeps its tokens in \<open>localStorage\<close> under its own keys; values are
  strings, a missing key reads as \<open>null\<close>.
\<close>

type_synonym storage = "string \<rightharpoonup> string"

definition key_accessToken :: string where
  "key_accessToken = ''sidedrawer_access_token''"

definition key_tokenExpiry :: string where
  "key_tokenExpiry = ''sidedrawer_token_expiry''"

definition baseURL :: string where
  "baseURL = ''https://user-api-sbx.sidedrawersbx.com''"

text \<open>\<open>getAccessToken() { return localStorage.getItem(this.storageKeys.accessToken); }\<close>\<close>

definition getAccessToken :: "storage \<Rightarrow> string option" where
  "getAccessToken ls = ls key_accessToken"

text \<open>
  \<open>parseInt(s)\<close> with no radix, on ASCII input: leading white space is skipped, a sign is
  read, a \<open>0x\<close>/\<open>0X\<close> prefix selects radix 16, the longest prefix of digits is
  converted, and the result is \<open>NaN\<close> (\<open>None\<close>) when there is no digit. The rounding of
  values beyond \<open>2^53\<close> to a double is not modelled.
\<close>

definition isWhitespace :: "char \<Rightarrow> bool" where
  "isWhitespace c = (of_char c \<in> {9::nat, 10, 11, 12, 13, 32})"

definition digitOf :: "nat \<Rightarrow> char \<Rightarrow> nat option" where
  "digitOf radix c =
     (let n = (of_char c :: nat);
          v = (if 48 \<le> n \<and> n \<le> 57 then Some (n - 48)
               else if 97 \<le> n \<and> n \<le> 102 then Some (n - 87)
               else if 65 \<le> n \<and> n \<le> 70 then Some (n - 55)
               else None)
      in case v of None \<Rightarrow> None | Some d \<Rightarrow> if d < radix then Some d else None)"

definition digitsValue :: "nat \<Rightarrow> string \<Rightarrow> int" where
  "digitsValue radix ds =
     foldl (\<lambda>acc c. case digitOf radix c of None \<Rightarrow> acc | Some d \<Rightarrow> acc * int radix + int d) 0 ds"

definition parseInt :: "string \<Rightarrow> int option" where
  "parseInt s =
     (let s1 = dropWhile isWhitespace s;
          neg = (take 1 s1 = ''-'');
          s2 = (if take 1 s1 = ''-'' \<or> take 1 s1 = ''+'' then drop 1 s1 else s1);
          hex = (take 2 s2 = ''0x'' \<or> take 2 s2 = ''0X'');
          radix = (if hex then 16 else 10);
          s3 = (if hex then drop 2 s2 else s2);
          ds = takeWhile (\<lambda>c. digitOf radix c \<noteq> None) s3
      in if ds = [] then None
         else Some ((if neg then - 1 else 1) * digitsValue radix ds))"

text \<open>
  \<open>isAuthenticated()\<close>: \<open>if (!token || !expiry) return false;
  return Date.now() < parseInt(expiry);\<close>
\<close>

definition isAuthenticated :: "int \<Rightarrow> storage \<Rightarrow> bool" where
  "isAuthenticated now ls =
     (let token = getAccessToken ls; expiry = ls key_tokenExpiry
      in if \<not> truthy token \<or> \<not> truthy expiry then False
         else case expiry of
                None \<Rightarrow> False
              | Some e \<Rightarrow> (case parseInt e of None \<Rightarrow> False | Some t \<Rightarrow> now < t))"

text \<open>The \<open>options\<close> argument of \<open>request\<close> and the \<open>config\<close> object handed to \<open>fetch\<close>.\<close>

record request_options =
  opt_method :: "string option"
  opt_body :: "string option"
  opt_headers :: "(string \<rightharpoonup> string) option"

record fetch_config =
  cfg_method :: "string option"
  cfg_body :: "string option"
  cfg_headers :: "string \<rightharpoonup> string"

text \<open>
  A response body as \<open>response.json()\<close> sees it: \<open>None\<close> when it is not JSON, the JSON
  value \<open>null\<close>, or a value with an optional \<open>message\<close> property.
\<close>

datatype api_json = ApiNull | ApiObject "string option" string

datatype http_result = FetchRejected | HttpResponse nat "api_json option"

datatype api_error =
    NotAuthenticated
  | AuthenticationExpired
  | ApiErrorMessage string
  | ApiErrorStatus nat
  | TransportError
  | BodyNotJson
  | NullBody

text \<open>\<open>endpoint.startsWith('http')\<close>\<close>

definition startsWith :: "string \<Rightarrow> string \<Rightarrow> bool" where
  "startsWith s p = (take (length p) s = p)"

definition defaultHeaders :: "string \<Rightarrow> (string \<rightharpoonup> string)" where
  "defaultHeaders token =
     [''Authorization'' \<mapsto> ''Bearer '' @ token, ''Content-Type'' \<mapsto> ''application/json'']"

text \<open>
  \<open>request(endpoint, options = {})\<close>. The result is what the method returns or throws,
  together with the list of \<open>fetch\<close> calls it made. In the object spread
  \<open>{...defaultHeaders, ...options.headers}\<close> a header of \<open>options\<close> replaces the default
  of the same name.
\<close>

definition request ::
  "storage \<Rightarrow> (string \<times> fetch_config \<Rightarrow> http_result) \<Rightarrow> string \<Rightarrow> request_options
     \<Rightarrow> (api_error + api_json) \<times> (string \<times> fetch_config) list" where
  "request ls net endpoint options =
     (case getAccessToken ls of
        None \<Rightarrow> (Inl NotAuthenticated, [])
      | Some token \<Rightarrow>
          if token = [] then (Inl NotAuthenticated, [])
          else
            (let url = (if startsWith endpoint ''http'' then endpoint else baseURL @ endpoint);
                 config = \<lparr>cfg_method = opt_method options, cfg_body = opt_body options,
                           cfg_headers = defaultHeaders token ++
                             (case opt_headers options of None \<Rightarrow> Map.empty | Some h \<Rightarrow> h)\<rparr>;
                 call = (url, config)
             in case net call of
                  FetchRejected \<Rightarrow> (Inl TransportError, [call])
                | HttpResponse st b \<Rightarrow>
                    if st = 401 then (Inl AuthenticationExpired, [call])
                    else if \<not> (200 \<le> st \<and> st \<le> 299) then
                      (case b of
                         None \<Rightarrow> (Inl (ApiErrorStatus st), [call])
                       | Some ApiNull \<Rightarrow> (Inl NullBody, [call])
                       | Some (ApiObject m c) \<Rightarrow>
                           (case m of
                              None \<Rightarrow> (Inl (ApiErrorStatus st), [call])
                            | Some msg \<Rightarrow>
                                if msg = [] then (Inl (ApiErrorStatus st), [call])
                                else (Inl (ApiErrorMessage msg), [call])))
                    else
                      (case b of
                         None \<Rightarrow> (Inl BodyNotJson, [call])
                       | Some j \<Rightarrow> (Inr j, [call]))))"

text \<open>\<open>getCurrentUser() { return this.request('/me'); }\<close>\<close>

definition no_options :: request_options where
  "no_options = \<lparr>opt_method = None, opt_body = None, opt_headers = None\<rparr>"

definition api_getCurrentUser ::
  "storage \<Rightarrow> (string \<times> fetch_config \<Rightarrow> http_result)
     \<Rightarrow> (api_error + api_json) \<times> (string \<times> fetch_config) list" where
  "api_getCurrentUser ls net = request ls net ''/me'' no_options"

section \<open>Setup API (app/setup-api.js)\<close>

subsection \<open>String methods\<close>

text \<open>
  \<open>toLowerCase\<close>, \<open>toUpperCase\<close>, \<open>includes\<close> and \<open>trim\<close> on ASCII strings.
\<close>

definition upperLetters :: string where
  "upperLetters = ''ABCDEFGHIJKLMNOPQRSTUVWXYZ''"

definition lowerLetters :: string where
  "lowerLetters = ''abcdefghijklmnopqrstuvwxyz''"

definition toLowerChar :: "char \<Rightarrow> char" where
  "toLowerChar c = (case map_of (zip upperLetters lowerLetters) c of None \<Rightarrow> c | Some d \<Rightarrow> d)"

definition toUpperChar :: "char \<Rightarrow> char" where
  "toUpperChar c = (case map_of (zip lowerLetters upperLetters) c of None \<Rightarrow> c | Some d \<Rightarrow> d)"

definition toLowerCase :: "string \<Rightarrow> string" where
  "toLowerCase s = map toLowerChar s"

definition toUpperCase :: "string \<Rightarrow> string" where
  "toUpperCase s = map toUpperChar s"

fun str_includes :: "string \<Rightarrow> string \<Rightarrow> bool" where
  "str_includes [] sub = (sub = [])"
| "str_includes (c # cs) sub = (startsWith (c # cs) sub \<or> str_includes cs sub)"

definition trim :: "string \<Rightarrow> string" where
  "trim s = rev (dropWhile isWhitespace (rev (dropWhile isWhitespace s)))"

subsection \<open>Data\<close>

text \<open>
  The configuration object that \<open>saveSetupConfig\<close> takes and \<open>getSetupConfig\<close> returns.
  A missing or \<open>null\<close> property is \<open>None\<close>.
\<close>

record config =
  config_id :: "string option"
  clientId :: "string option"
  environment :: "string option"
  redirectUri :: "string option"
  tenantId :: "string option"
  brandCode :: "string option"
  isActive :: "bool option"

text \<open>A record of the custom module \<open>SD_Widget_Setup\<close>.\<close>

record zrecord =
  record_id :: "string option"
  Client_Id__c :: "string option"
  Environment__c :: "string option"
  Redirect_Uri__c :: "string option"
  Tenant_Id__c :: "string option"
  Brand_Code__c :: "string option"
  Is_Active__c :: "bool option"

text \<open>What \<open>ZOHO.CRM.CONFIG.getVariables()\<close> resolves to.\<close>

record widget_vars =
  wv_client_id :: "string option"
  wv_environment :: "string option"
  wv_redirect_uri :: "string option"

text \<open>\<open>userData = user?.users?.[0]\<close> of \<open>ZOHO.CRM.CONFIG.getCurrentUser()\<close>.\<close>

record userData =
  role_name :: "string option"
  role_id :: "string option"
  admin :: bool
  profile_name :: "string option"
  profile_id :: "string option"

datatype cred_source = custom_module | widget_variables | localStorage_source

record credentials =
  cred_clientId :: "string option"
  cred_environment :: "string option"
  cred_redirectUri :: "string option"
  cred_tenantId :: "string option"
  cred_brandCode :: "string option"
  cred_source :: cred_source

text \<open>
  A value of \<open>localStorage\<close>. The text that \<open>JSON.stringify\<close> produces for a
  configuration object \<open>c\<close> is kept symbolic as \<open>JSONText c\<close>; \<open>Text s\<close> is any string
  that is not the JSON text of an object. \<open>JSON_parse\<close> is then \<open>JSON.parse\<close> followed by
  the test \<open>config && ...\<close>: \<open>None\<close> when parsing throws or yields no object.
\<close>

datatype stored = Text string | JSONText config

definition JSON_stringify :: "config \<Rightarrow> stored" where
  "JSON_stringify c = JSONText c"

definition JSON_parse :: "stored \<Rightarrow> config option" where
  "JSON_parse v = (case v of Text s \<Rightarrow> None | JSONText c \<Rightarrow> Some c)"

text \<open>
  The state of the Zoho SDK in the page: the global \<open>ZOHO\<close> is undefined, or it is
  defined but \<open>ZOHO.CRM.CONFIG\<close> and \<open>ZOHO.CRM.API\<close> are not there yet, or it is ready.
\<close>

datatype sdk_state = SdkUndefined | SdkLoading | SdkReady

text \<open>
  The environment of the widget. \<open>clock\<close> counts the 100 ms sleeps taken so far and
  \<open>sdk\<close> gives the state of the SDK after that many sleeps. \<open>urlParams\<close> are the
  query parameters of \<open>window.location.search\<close>. \<open>currentUser\<close> and
  \<open>widgetVariables\<close> are what the host's calls resolve to; \<open>crm_module\<close> is the content
  of \<open>SD_Widget_Setup\<close> (\<open>None\<close>: the module does not exist or is not accessible);
  \<open>write_reply\<close> is \<open>response?.data?.[0]\<close> of the host's answer to an insert or an
  update, and \<open>fresh_id\<close> the id the host gives an inserted record.
\<close>

record host =
  isStandalone :: bool
  clock :: nat
  sdk :: "nat \<Rightarrow> sdk_state"
  currentUser :: "userData option promise"
  urlParams :: "string \<rightharpoonup> string"
  localStorage :: "string \<rightharpoonup> stored"
  setItem_throws :: bool
  crm_module :: "zrecord list option"
  widgetVariables :: "widget_vars option promise"
  write_reply :: "zrecord option promise"
  fresh_id :: string

datatype setup_error =
    StandaloneSaveFailed
  | PermissionDenied
  | ClientIdRequired
  | EnvironmentInvalid
  | RedirectUriRequired
  | ModuleMissing
  | SaveFailed
  | HostApiError

definition SETUP_CONFIG_KEY :: string where
  "SETUP_CONFIG_KEY = ''sd_widget_setup_config''"

subsection \<open>The host's record API\<close>

text \<open>
  \<open>ZOHO.CRM.API\<close> is the host's, not the widget's. A call made while the SDK is not
  ready throws. \<open>getRecords\<close> rejects when the module is missing and otherwise returns
  the first \<open>perPage\<close> records. A rejected write changes nothing; an accepted update
  overwrites the fields of the record with the given id; an accepted insert appends the
  record under the id the host assigns.
\<close>

definition getRecords :: "host \<Rightarrow> nat \<Rightarrow> zrecord list promise" where
  "getRecords h perPage =
     (if sdk h (clock h) \<noteq> SdkReady then Rejects
      else case crm_module h of None \<Rightarrow> Rejects | Some rs \<Rightarrow> Resolves (take perPage rs))"

definition updateRecord :: "host \<Rightarrow> string \<Rightarrow> zrecord \<Rightarrow> zrecord option promise \<times> host" where
  "updateRecord h rid d =
     (if sdk h (clock h) \<noteq> SdkReady then (Rejects, h)
      else case write_reply h of
             Rejects \<Rightarrow> (Rejects, h)
           | Resolves r \<Rightarrow>
               (Resolves r,
                h\<lparr>crm_module :=
                    map_option (map (\<lambda>x. if record_id x = Some rid then d\<lparr>record_id := Some rid\<rparr> else x))
                      (crm_module h)\<rparr>))"

definition insertRecord :: "host \<Rightarrow> zrecord \<Rightarrow> zrecord option promise \<times> host" where
  "insertRecord h d =
     (if sdk h (clock h) \<noteq> SdkReady then (Rejects, h)
      else case write_reply h of
             Rejects \<Rightarrow> (Rejects, h)
           | Resolves r \<Rightarrow>
               (Resolves r,
                h\<lparr>crm_module :=
                    map_option (\<lambda>rs. rs @ [d\<lparr>record_id := Some (fresh_id h)\<rparr>]) (crm_module h)\<rparr>))"

subsection \<open>Permission check\<close>

definition maxAttempts :: nat where
  "maxAttempts = 50"

text \<open>
  \<open>while (cond && attempts < maxAttempts) { await sleep(100); attempts++; }\<close>:
  \<open>waitWhile busy s t n\<close> is the clock at which the loop ends when it starts at clock
  \<open>t\<close> with \<open>n\<close> attempts left.
\<close>

fun waitWhile :: "(sdk_state \<Rightarrow> bool) \<Rightarrow> (nat \<Rightarrow> sdk_state) \<Rightarrow> nat \<Rightarrow> nat \<Rightarrow> nat" where
  "waitWhile busy s t 0 = t"
| "waitWhile busy s t (Suc n) = (if busy (s t) then waitWhile busy s (Suc t) n else t)"

text \<open>
  \<open>urlParams.get('admin') === 'true' || localStorage.getItem('sd_force_admin') === 'true'\<close>
\<close>

definition manualAdmin :: "host \<Rightarrow> bool" where
  "manualAdmin h =
     (urlParams h ''admin'' = Some ''true'' \<or> localStorage h ''sd_force_admin'' = Some (Text ''true''))"

text \<open>\<open>x || ''\<close>\<close>

definition orEmpty :: "string option \<Rightarrow> string" where
  "orEmpty v = (case v of None \<Rightarrow> [] | Some s \<Rightarrow> s)"

text \<open>The constant \<open>isAdmin\<close> of \<open>checkUserHasManageOrgPermission\<close>, as a function of \<open>userData\<close>.\<close>

definition isAdmin :: "userData \<Rightarrow> bool" where
  "isAdmin u =
     (let role = orEmpty (role_name u);
          roleId = orEmpty (role_id u);
          isAdminFlag = admin u;
          profile = orEmpty (profile_name u);
          profileId = orEmpty (profile_id u);
          roleLower = toLowerCase role;
          profileLower = toLowerCase profile;
          roleIdUpper = toUpperCase roleId;
          profileIdUpper = toUpperCase profileId
      in roleLower = ''administrator'' \<or>
         roleLower = ''admin'' \<or>
         roleIdUpper = ''ADMIN'' \<or>
         str_includes roleIdUpper ''ADMIN'' \<or>
         isAdminFlag \<or>
         str_includes profileLower ''admin'' \<or>
         str_includes profileLower ''administrator'' \<or>
         str_includes profileLower ''manager'' \<or>
         str_includes profileLower ''management'' \<or>
         str_includes profileIdUpper ''ADMIN'' \<or>
         profileIdUpper = ''1100000000001'')"

text \<open>
  \<open>checkUserHasManageOrgPermission()\<close>, returning the answer and the host with its clock
  advanced by the sleeps taken. Every \<open>return false\<close> of the source, and its
  \<open>catch\<close>, is a \<open>False\<close> here.
\<close>

definition checkUserHasManageOrgPermission :: "host \<Rightarrow> bool \<times> host" where
  "checkUserHasManageOrgPermission h =
     (if isStandalone h then (True, h)
      else
        (let t1 = waitWhile (\<lambda>s. s = SdkUndefined) (sdk h) (clock h) maxAttempts
         in if sdk h t1 = SdkUndefined then (False, h\<lparr>clock := t1\<rparr>)
            else
              (let t2 = waitWhile (\<lambda>s. s \<noteq> SdkReady) (sdk h) t1 maxAttempts;
                   h2 = h\<lparr>clock := t2\<rparr>
               in if sdk h t2 \<noteq> SdkReady then (False, h2)
                  else
                    (case currentUser h of
                       Rejects \<Rightarrow> (False, h2)
                     | Resolves None \<Rightarrow> (False, h2)
                     | Resolves (Some u) \<Rightarrow>
                         if manualAdmin h then (True, h2)
                         else if \<not> isAdmin u \<and> truthy (profile_id u) \<and>
                                 (str_includes (toUpperCase (orEmpty (profile_id u))) ''ADMIN'' \<or>
                                  orEmpty (profile_id u) = ''1100000000001'')
                         then (True, h2)
                         else (isAdmin u, h2)))))"

subsection \<open>Reading and writing the shared configuration\<close>

text \<open>\<open>checkSetupModuleExists()\<close>\<close>

definition checkSetupModuleExists :: "host \<Rightarrow> bool" where
  "checkSetupModuleExists h =
     (if isStandalone h then False
      else case getRecords h 1 of Rejects \<Rightarrow> False | Resolves rs \<Rightarrow> True)"

text \<open>\<open>getSetupConfig()\<close>\<close>

definition getSetupConfig :: "host \<Rightarrow> config option" where
  "getSetupConfig h =
     (if isStandalone h then None
      else if \<not> checkSetupModuleExists h then None
      else case getRecords h 10 of
             Rejects \<Rightarrow> None
           | Resolves [] \<Rightarrow> None
           | Resolves (r # rs) \<Rightarrow>
               Some \<lparr>config_id = record_id r,
                     clientId = orNull (Client_Id__c r),
                     environment = orNull (Environment__c r),
                     redirectUri = orNull (Redirect_Uri__c r),
                     tenantId = orNull (Tenant_Id__c r),
                     brandCode = orNull (Brand_Code__c r),
                     isActive = Some (Is_Active__c r \<noteq> Some False)\<rparr>)"

text \<open>\<open>!v || !v.trim()\<close>\<close>

definition blank :: "string option \<Rightarrow> bool" where
  "blank v = (case v of None \<Rightarrow> True | Some s \<Rightarrow> s = [] \<or> trim s = [])"

text \<open>\<open>!v || !['sandbox', 'production'].includes(v.toLowerCase())\<close>\<close>

definition badEnvironment :: "string option \<Rightarrow> bool" where
  "badEnvironment v =
     (case v of
        None \<Rightarrow> True
      | Some s \<Rightarrow> s = [] \<or> toLowerCase s \<notin> set [''sandbox'', ''production''])"

text \<open>\<open>a || b\<close>\<close>

definition orElse :: "string option \<Rightarrow> string option \<Rightarrow> string option" where
  "orElse a b = (if truthy a then a else b)"

text \<open>The object \<open>setupData\<close> that is sent to the host.\<close>

definition setupData :: "config \<Rightarrow> zrecord" where
  "setupData c =
     \<lparr>record_id = None,
      Client_Id__c = map_option trim (clientId c),
      Environment__c = map_option toLowerCase (environment c),
      Redirect_Uri__c = map_option trim (redirectUri c),
      Tenant_Id__c = orNull (map_option trim (tenantId c)),
      Brand_Code__c = orNull (map_option trim (brandCode c)),
      Is_Active__c = Some (isActive c \<noteq> Some False)\<rparr>"

text \<open>
  \<open>saveSetupConfig(config)\<close>: the value returned or the error thrown, and the host after
  the call.
\<close>

definition saveSetupConfig :: "host \<Rightarrow> config \<Rightarrow> (setup_error + config) \<times> host" where
  "saveSetupConfig h c =
     (if isStandalone h then
        (if setItem_throws h then (Inl StandaloneSaveFailed, h)
         else (Inr c, h\<lparr>localStorage := (localStorage h)(SETUP_CONFIG_KEY \<mapsto> JSON_stringify c)\<rparr>))
      else
        (case checkUserHasManageOrgPermission h of
           (hasPermission, h1) \<Rightarrow>
             if \<not> hasPermission then (Inl PermissionDenied, h1)
             else if blank (clientId c) then (Inl ClientIdRequired, h1)
             else if badEnvironment (environment c) then (Inl EnvironmentInvalid, h1)
             else if blank (redirectUri c) then (Inl RedirectUriRequired, h1)
             else if \<not> checkSetupModuleExists h1 then (Inl ModuleMissing, h1)
             else
               (let d = setupData c;
                    existingConfig = getSetupConfig h1;
                    (reply, h2) =
                       (case existingConfig of
                          None \<Rightarrow> insertRecord h1 d
                        | Some e \<Rightarrow>
                            (case config_id e of
                               None \<Rightarrow> insertRecord h1 d
                             | Some i \<Rightarrow> if i = [] then insertRecord h1 d else updateRecord h1 i d))
                in case reply of
                     Rejects \<Rightarrow> (Inl HostApiError, h2)
                   | Resolves None \<Rightarrow> (Inl SaveFailed, h2)
                   | Resolves (Some saved) \<Rightarrow>
                       (Inr \<lparr>config_id = record_id saved,
                             clientId = orElse (Client_Id__c saved) (Client_Id__c d),
                             environment = orElse (Environment__c saved) (Environment__c d),
                             redirectUri = orElse (Redirect_Uri__c saved) (Redirect_Uri__c d),
                             tenantId = orElse (Tenant_Id__c saved) (Tenant_Id__c d),
                             brandCode = orElse (Brand_Code__c saved) (Brand_Code__c d),
                             isActive = Some (Is_Active__c saved \<noteq> Some False)\<rparr>, h2))))"

text \<open>
  \<open>getCredentials()\<close>, block by block: the early return in standalone mode, the custom
  module, the widget variables (\<open>if (!isStandalone)\<close>), the \<open>localStorage\<close> fallback
  (\<open>if (isStandalone)\<close>), and \<open>null\<close>.
\<close>

definition fromCustomModule :: "host \<Rightarrow> credentials option" where
  "fromCustomModule h =
     (case getSetupConfig h of
        None \<Rightarrow> None
      | Some customModuleConfig \<Rightarrow>
          if truthy (clientId customModuleConfig) then
            Some \<lparr>cred_clientId = clientId customModuleConfig,
                  cred_environment = environment customModuleConfig,
                  cred_redirectUri = redirectUri customModuleConfig,
                  cred_tenantId = tenantId customModuleConfig,
                  cred_brandCode = brandCode customModuleConfig,
                  cred_source = custom_module\<rparr>
          else None)"

definition fromWidgetVariables :: "host \<Rightarrow> credentials option" where
  "fromWidgetVariables h =
     (if sdk h (clock h) \<noteq> SdkReady then None
      else case widgetVariables h of
             Rejects \<Rightarrow> None
           | Resolves None \<Rightarrow> None
           | Resolves (Some widgetConfig) \<Rightarrow>
               if truthy (wv_client_id widgetConfig) then
                 Some \<lparr>cred_clientId = wv_client_id widgetConfig,
                       cred_environment = orDefault (wv_environment widgetConfig) ''sandbox'',
                       cred_redirectUri = wv_redirect_uri widgetConfig,
                       cred_tenantId = None,
                       cred_brandCode = None,
                       cred_source = widget_variables\<rparr>
               else None)"

definition fromLocalStorage :: "host \<Rightarrow> credentials option" where
  "fromLocalStorage h =
     (case localStorage h SETUP_CONFIG_KEY of
        None \<Rightarrow> None
      | Some storedConfig \<Rightarrow>
          (case JSON_parse storedConfig of
             None \<Rightarrow> None
           | Some config \<Rightarrow>
               if truthy (clientId config) then
                 Some \<lparr>cred_clientId = clientId config,
                       cred_environment = orDefault (environment config) ''sandbox'',
                       cred_redirectUri = redirectUri config,
                       cred_tenantId = orNull (tenantId config),
                       cred_brandCode = orNull (brandCode config),
                       cred_source = localStorage_source\<rparr>
               else None))"

definition getCredentials :: "host \<Rightarrow> credentials option" where
  "getCredentials h =
     (if isStandalone h then None
      else case fromCustomModule h of
             Some r \<Rightarrow> Some r
           | None \<Rightarrow>
               (case (if \<not> isStandalone h then fromWidgetVariables h else None) of
                  Some r \<Rightarrow> Some r
                | None \<Rightarrow>
                    (case (if isStandalone h then fromLocalStorage h else None) of
                       Some r \<Rightarrow> Some r
                     | None \<Rightarrow> None)))"

subsection \<open>Field-by-field resolution, as the specification words it\<close>

text \<open>
  The resolution rule in the specification's words: "first non-empty wins,
  field-by-field -- not all-or-nothing per source", over the sources in priority order.
  It is stated here only to be compared with \<open>getCredentials\<close>.
\<close>

record source_fields =
  sf_clientId :: "string option"
  sf_environment :: "string option"
  sf_redirectUri :: "string option"

definition firstNonEmpty :: "string option list \<Rightarrow> string option" where
  "firstNonEmpty vs = (case filter truthy vs of [] \<Rightarrow> None | v # rest \<Rightarrow> v)"

definition resolve_fieldwise :: "source_fields list \<Rightarrow> source_fields" where
  "resolve_fieldwise srcs =
     \<lparr>sf_clientId = firstNonEmpty (map sf_clientId srcs),
      sf_environment = firstNonEmpty (map sf_environment srcs),
      sf_redirectUri = firstNonEmpty (map sf_redirectUri srcs)\<rparr>"

definition no_source :: source_fields where
  "no_source = \<lparr>sf_clientId = None, sf_environment = None, sf_redirectUri = None\<rparr>"

definition shared_source :: "host \<Rightarrow> source_fields" where
  "shared_source h =
     (case getSetupConfig h of
        None \<Rightarrow> no_source
      | Some c \<Rightarrow> \<lparr>sf_clientId = clientId c, sf_environment = environment c,
                   sf_redirectUri = redirectUri c\<rparr>)"

definition widget_source :: "host \<Rightarrow> source_fields" where
  "widget_source h =
     (case widgetVariables h of
        Rejects \<Rightarrow> no_source
      | Resolves None \<Rightarrow> no_source
      | Resolves (Some w) \<Rightarrow> \<lparr>sf_clientId = wv_client_id w, sf_environment = wv_environment w,
                               sf_redirectUri = wv_redirect_uri w\<rparr>)"

text \<open>The URL query parameters and the local fallback storage as sources.\<close>

definition url_source :: "host \<Rightarrow> source_fields" where
  "url_source h =
     \<lparr>sf_clientId = urlParams h ''client_id'', sf_environment = urlParams h ''environment'',
      sf_redirectUri = urlParams h ''redirect_uri''\<rparr>"

definition local_source :: "host \<Rightarrow> source_fields" where
  "local_source h =
     (case localStorage h SETUP_CONFIG_KEY of
        None \<Rightarrow> no_source
      | Some v \<Rightarrow>
          (case JSON_parse v of
             None \<Rightarrow> no_source
           | Some c \<Rightarrow> \<lparr>sf_clientId = clientId c, sf_environment = environment c,
                        sf_redirectUri = redirectUri c\<rparr>))"

text \<open>The four sources in the specification's priority order.\<close>

definition sources :: "host \<Rightarrow> source_fields list" where
  "sources h = [shared_source h, widget_source h, url_source h, local_source h]"

section \<open>Concrete inputs\<close>

subsection \<open>Session management\<close>

definition example_oauth :: oauth_config where
  "example_oauth =
     \<lparr>tokenEndpoint = ''https://auth-sbx.sidedrawersbx.com/oauth/token'',
      oauth_clientId = ''client-1'', oauth_clientSecret = None,
      oauth_audience = ''https://user-api-sbx.sidedrawersbx.com''\<rparr>"

definition no_tokens :: tokenData where
  "no_tokens = \<lparr>access_token = None, expires_in = None, refresh_token = None\<rparr>"


text \<open>A token endpoint that answers 400 with a JSON error object.\<close>

definition endpoint_400 :: "token_request \<Rightarrow> fetch_result" where
  "endpoint_400 req = Response 400 (JsonObject no_tokens)"


text \<open>A network that is down.\<close>

definition endpoint_down :: "token_request \<Rightarrow> fetch_result" where
  "endpoint_down req = NetworkFailure"

definition session_until :: "int \<Rightarrow> session" where
  "session_until e = \<lparr>accessToken = Some ''t1'', expiresAt = Some e, tokenType = ''Bearer''\<rparr>"

text \<open>A stored session that expires at 1000000 ms, with and without a refresh token.\<close>

definition auth_with_refresh :: auth where
  "auth_with_refresh =
     \<lparr>zohoSession = Some (session_until 1000000), refreshTokenLS = Some ''r1'',
      status = NotShown, fetches = []\<rparr>"

definition auth_without_refresh :: auth where
  "auth_without_refresh =
     \<lparr>zohoSession = Some (session_until 1000000), refreshTokenLS = None,
      status = NotShown, fetches = []\<rparr>"



subsection \<open>Provider API client\<close>

text \<open>A store holding a token whose expiry time, 1000, has passed at time 2000.\<close>

definition expired_storage :: storage where
  "expired_storage = [key_accessToken \<mapsto> ''tok'', key_tokenExpiry \<mapsto> ''1000'']"

definition empty_storage :: storage where
  "empty_storage = Map.empty"

definition server_ok :: "string \<times> fetch_config \<Rightarrow> http_result" where
  "server_ok call = HttpResponse 200 (Some (ApiObject None ''{}''))"

definition own_headers :: request_options where
  "own_headers =
     \<lparr>opt_method = None, opt_body = None,
      opt_headers = Some [''Authorization'' \<mapsto> ''Basic abc'']\<rparr>"

subsection \<open>Setup API\<close>

definition sdk_ready :: "nat \<Rightarrow> sdk_state" where
  "sdk_ready t = SdkReady"

definition standard_user :: userData where
  "standard_user =
     \<lparr>role_name = Some ''Sales Rep'', role_id = Some ''4150868000000026005'', admin = False,
      profile_name = Some ''Standard'', profile_id = Some ''4150868000000026014''\<rparr>"

definition valid_config :: config where
  "valid_config =
     \<lparr>config_id = None, clientId = Some ''A'', environment = Some ''sandbox'',
      redirectUri = Some ''https://widget.example/cb'', tenantId = None, brandCode = None,
      isActive = Some True\<rparr>"

text \<open>A configuration that fails every validation of the embedded path.\<close>

definition invalid_config :: config where
  "invalid_config =
     \<lparr>config_id = None, clientId = Some [], environment = Some ''staging'',
      redirectUri = None, tenantId = None, brandCode = None, isActive = None\<rparr>"

definition saved_reply :: zrecord where
  "saved_reply =
     \<lparr>record_id = Some ''rec-1'', Client_Id__c = None, Environment__c = None,
      Redirect_Uri__c = None, Tenant_Id__c = None, Brand_Code__c = None, Is_Active__c = None\<rparr>"

text \<open>
  The widget embedded in the CRM, SDK ready, a standard user signed in, the module
  present and empty, no widget variables.
\<close>

definition embedded_host :: host where
  "embedded_host =
     \<lparr>isStandalone = False, clock = 0, sdk = sdk_ready,
      currentUser = Resolves (Some standard_user), urlParams = Map.empty,
      localStorage = Map.empty, setItem_throws = False,
      crm_module = Some [], widgetVariables = Resolves None,
      write_reply = Resolves (Some saved_reply), fresh_id = ''rec-1''\<rparr>"





text \<open>The widget opened outside the CRM (local development).\<close>

definition standalone_host :: host where
  "standalone_host = embedded_host\<lparr>isStandalone := True\<rparr>"

text \<open>A shared record with a client id and nothing else.\<close>

definition clientId_only_record :: zrecord where
  "clientId_only_record =
     \<lparr>record_id = Some ''rec-1'', Client_Id__c = Some ''A'', Environment__c = None,
      Redirect_Uri__c = None, Tenant_Id__c = None, Brand_Code__c = None, Is_Active__c = None\<rparr>"

definition widget_B :: widget_vars where
  "widget_B =
     \<lparr>wv_client_id = Some ''B'', wv_environment = None,
      wv_redirect_uri = Some ''https://widget.example/cb''\<rparr>"

text \<open>
  The shared record has only a client id; the widget variables are complete, and the
  page is opened with \<open>?client_id=B\<close>.
\<close>

definition partial_record_host :: host where
  "partial_record_host =
     embedded_host\<lparr>crm_module := Some [clientId_only_record],
                    widgetVariables := Resolves (Some widget_B),
                    urlParams := [''client_id'' \<mapsto> ''B'']\<rparr>"

text \<open>The shared record has only a client id; there are no widget variables.\<close>

definition record_only_host :: host where
  "record_only_host = embedded_host\<lparr>crm_module := Some [clientId_only_record]\<rparr>"

text \<open>No shared record; widget variables without an environment.\<close>

definition widget_only_host :: host where
  "widget_only_host = embedded_host\<lparr>widgetVariables := Resolves (Some widget_B)\<rparr>"

section \<open>Properties of session management\<close>

lemmas auth_defs = getZohoSession_def setZohoSession_def showConnectedStatus_def
  showDisconnectedStatus_def disconnect_def getRefreshToken_def


lemma refreshAccessToken_rejected:
  assumes "refreshTokenLS a = Some rt" "rt \<noteq> []"
    and "net (refresh_request cfg rt) = NetworkFailure \<or> (\<exists>st. net (refresh_request cfg rt) = Response st NotJson)"
  shows "zohoSession (refreshAccessToken cfg net saved_at a) = None \<and>
         refreshTokenLS (refreshAccessToken cfg net saved_at a) = None \<and>
         status (refreshAccessToken cfg net saved_at a) = Disconnected \<and>
         fetches (refreshAccessToken cfg net saved_at a) = fetches a @ [refresh_request cfg rt]"
  using assms
  by (auto simp: refreshAccessToken_def auth_defs Let_def)

text \<open>
  Claim C7. With the skew buffer of 300 seconds, \<open>isTokenExpired\<close> is true at
  \<open>now = expiresAt - 300 s\<close> and false at \<open>now = expiresAt - 301 s\<close>; it is true exactly
  when \<open>now \<ge> expiresAt - 300 s\<close>. A stored access token is never taken as valid from
  that moment on: \<open>checkConnection\<close> refreshes or shows the disconnected state. The API
  client's \<open>isAuthenticated\<close> applies the same rule with a buffer of zero: it is false
  whenever \<open>now \<ge> expiry\<close>. Times are in milliseconds, as \<open>Date.now()\<close> gives them.
\<close>

theorem isTokenExpired_boundary:
  "isTokenExpired (e - 300 * 1000) (Some e) \<and>
   \<not> isTokenExpired (e - 301 * 1000) (Some e) \<and>
   isTokenExpired now (Some e) = (now \<ge> e - 300 * 1000) \<and>
   (zohoSession a = Some s \<longrightarrow> expiresAt s = Some e \<longrightarrow> now \<ge> e - bufferTime \<longrightarrow>
      checkConnection cfg net now saved_at a =
        (if truthy (getRefreshToken a) then refreshAccessToken cfg net saved_at a
         else showDisconnectedStatus a)) \<and>
   (ls key_tokenExpiry = Some x \<longrightarrow> parseInt x = Some e \<longrightarrow> now \<ge> e \<longrightarrow>
      \<not> isAuthenticated now ls)"
  by (simp add: isTokenExpired_def bufferTime_def checkConnection_def getZohoSession_def
        isAuthenticated_def Let_def)

theorem isTokenExpired_boundary_witness:
  "zohoSession auth_without_refresh = Some (session_until 1000000) \<and>
   expiresAt (session_until 1000000) = Some 1000000 \<and>
   (700000::int) \<ge> 1000000 - bufferTime \<and>
   status (checkConnection example_oauth endpoint_down 700000 700001 auth_without_refresh) = Disconnected \<and>
   expired_storage key_tokenExpiry = Some ''1000'' \<and> parseInt ''1000'' = Some 1000 \<and>
   (2000::int) \<ge> 1000 \<and> \<not> isAuthenticated 2000 expired_storage"
  using isTokenExpired_boundary [of 1000000 700000 auth_without_refresh "session_until 1000000"
      example_oauth endpoint_down 700001 expired_storage "''1000''"]
    isTokenExpired_boundary [of 1000 2000 auth_without_refresh "session_until 1000000"
      example_oauth endpoint_down 700001 expired_storage "''1000''"]
  by (simp add: auth_without_refresh_def session_until_def bufferTime_def truthy_def
        getRefreshToken_def showDisconnectedStatus_def expired_storage_def key_tokenExpiry_def
        key_accessToken_def parseInt_def isWhitespace_def digitOf_def digitsValue_def Let_def)




text \<open>
  Claim C1, evaluated where it fails. The token endpoint answers the refresh with status
  400 and a JSON error object. \<open>refreshAccessToken\<close> does not look at the status: it
  stores a session without access token and without expiry time, keeps the refresh
  token, and shows the connected state.
\<close>

theorem refreshAccessToken_non_2xx_shows_connected:
  "endpoint_400 (refresh_request example_oauth ''r1'') = Response 400 (JsonObject no_tokens) \<and>
   status (refreshAccessToken example_oauth endpoint_400 700001 auth_with_refresh) = Connected \<and>
   refreshTokenLS (refreshAccessToken example_oauth endpoint_400 700001 auth_with_refresh) = Some ''r1'' \<and>
   zohoSession (refreshAccessToken example_oauth endpoint_400 700001 auth_with_refresh) =
     Some \<lparr>accessToken = None, expiresAt = None, tokenType = ''Bearer''\<rparr> \<and>
   status (checkConnection example_oauth endpoint_400 700000 700001 auth_with_refresh) = Connected"
  by (simp add: refreshAccessToken_def checkConnection_def auth_defs saveTokens_def endpoint_400_def
        no_tokens_def auth_with_refresh_def session_until_def truthy_def isTokenExpired_def
        bufferTime_def Let_def)

section \<open>Properties of the provider API client\<close>

lemmas parse_defs = parseInt_def isWhitespace_def digitOf_def digitsValue_def

text \<open>
  Claim C9, as the code has it. \<open>request\<close> is gated on the presence of a stored access
  token, not on its expiry: with no token (\<open>null\<close> or empty) it throws the
  authentication error and calls \<open>fetch\<close> not at all; with a token it calls \<open>fetch\<close>
  exactly once, and the \<open>Authorization\<close> header of that call is \<open>Bearer\<close> followed by
  the stored token unless the caller's \<open>options.headers\<close> has an \<open>Authorization\<close> entry
  of its own.
\<close>

theorem request_gate:
  "(\<not> truthy (getAccessToken ls) \<longrightarrow>
      request ls net endpoint options = (Inl NotAuthenticated, [])) \<and>
   (getAccessToken ls = Some token \<longrightarrow> token \<noteq> [] \<longrightarrow>
      (\<exists>url config. snd (request ls net endpoint options) = [(url, config)] \<and>
         ((\<forall>h. opt_headers options = Some h \<longrightarrow> h ''Authorization'' = None) \<longrightarrow>
            cfg_headers config ''Authorization'' = Some (''Bearer '' @ token))))"
proof (intro conjI impI)
  assume "\<not> truthy (getAccessToken ls)"
  then show "request ls net endpoint options = (Inl NotAuthenticated, [])"
    by (auto simp: request_def truthy_def split: option.splits)
next
  assume tok: "getAccessToken ls = Some token" "token \<noteq> []"
  define url where "url = (if startsWith endpoint ''http'' then endpoint else baseURL @ endpoint)"
  define config where "config = \<lparr>cfg_method = opt_method options, cfg_body = opt_body options,
       cfg_headers = defaultHeaders token ++
         (case opt_headers options of None \<Rightarrow> Map.empty | Some h \<Rightarrow> h)\<rparr>"
  have sent: "snd (request ls net endpoint options) = [(url, config)]"
    using tok
    by (simp add: request_def url_def config_def Let_def
          split: http_result.split option.split api_json.split)
  have hdr: "cfg_headers config ''Authorization'' = Some (''Bearer '' @ token)"
    if "\<forall>h. opt_headers options = Some h \<longrightarrow> h ''Authorization'' = None"
    using that
    by (cases "opt_headers options") (simp_all add: config_def defaultHeaders_def map_add_def)
  from sent hdr
  show "\<exists>url config. snd (request ls net endpoint options) = [(url, config)] \<and>
         ((\<forall>h. opt_headers options = Some h \<longrightarrow> h ''Authorization'' = None) \<longrightarrow>
            cfg_headers config ''Authorization'' = Some (''Bearer '' @ token))"
    by blast
qed

theorem request_gate_witness:
  "\<not> truthy (getAccessToken empty_storage) \<and>
   request empty_storage server_ok ''/me'' no_options = (Inl NotAuthenticated, []) \<and>
   getAccessToken expired_storage = Some ''tok'' \<and>
   opt_headers no_options = None \<and>
   (\<exists>url config. snd (request expired_storage server_ok ''/me'' no_options) = [(url, config)] \<and>
      cfg_headers config ''Authorization'' = Some ''Bearer tok'')"
proof -
  have none: "\<not> truthy (getAccessToken empty_storage)"
    by (simp add: truthy_def getAccessToken_def empty_storage_def)
  have tok: "getAccessToken expired_storage = Some ''tok''" "''tok'' \<noteq> []"
    by (simp_all add: getAccessToken_def expired_storage_def key_accessToken_def key_tokenExpiry_def)
  have hd: "\<forall>h. opt_headers no_options = Some h \<longrightarrow> h ''Authorization'' = None"
    by (simp add: no_options_def)
  from none have r1: "request empty_storage server_ok ''/me'' no_options = (Inl NotAuthenticated, [])"
    using request_gate [of empty_storage server_ok "''/me''" no_options] by blast
  from tok hd
  have r2: "\<exists>url config. snd (request expired_storage server_ok ''/me'' no_options) = [(url, config)] \<and>
      cfg_headers config ''Authorization'' = Some (''Bearer '' @ ''tok'')"
    using request_gate [of expired_storage server_ok "''/me''" no_options "''tok''"] by blast
  have "opt_headers no_options = None"
    by (simp add: no_options_def)
  with none tok r1 r2 show ?thesis by simp
qed

text \<open>
  Claim C9 as stated fails on an expired token. A token is stored but its expiry time
  has passed, so \<open>isAuthenticated\<close> is false. \<open>getCurrentUser\<close> calls \<open>request\<close>,
  which reads only the token: it sends the request, and the server's answer is returned.
\<close>

theorem request_sent_with_expired_token:
  "\<not> isAuthenticated 2000 expired_storage \<and>
   fst (api_getCurrentUser expired_storage server_ok) = Inr (ApiObject None ''{}'') \<and>
   length (snd (api_getCurrentUser expired_storage server_ok)) = 1"
  by (simp add: isAuthenticated_def api_getCurrentUser_def request_def getAccessToken_def
        expired_storage_def key_accessToken_def key_tokenExpiry_def truthy_def parse_defs
        server_ok_def no_options_def Let_def)

text \<open>A header passed in \<open>options.headers\<close> replaces the bearer token.\<close>

lemma request_header_overridden:
  "map (\<lambda>call. cfg_headers (snd call) ''Authorization'')
     (snd (request expired_storage server_ok ''/me'' own_headers)) = [Some ''Basic abc'']"
  by (simp add: request_def getAccessToken_def expired_storage_def key_accessToken_def
        key_tokenExpiry_def server_ok_def own_headers_def defaultHeaders_def Let_def)

section \<open>Properties of the setup API\<close>

lemmas str_defs = toLowerCase_def toLowerChar_def toUpperCase_def toUpperChar_def
  upperLetters_def lowerLetters_def startsWith_def trim_def isWhitespace_def






lemmas setup_defs = checkSetupModuleExists_def getSetupConfig_def getRecords_def
  insertRecord_def updateRecord_def setupData_def blank_def badEnvironment_def
  orElse_def orNull_def orDefault_def truthy_def maxAttempts_def








text \<open>
  Claim C10. In standalone mode \<open>saveSetupConfig\<close> checks neither permission nor
  fields: for every configuration object it stores the JSON text of the object under
  \<open>sd_widget_setup_config\<close> and returns the object unchanged; the only error it throws is
  the one for a failing \<open>localStorage\<close> write, and then nothing is changed.
\<close>

theorem saveSetupConfig_standalone:
  assumes "isStandalone h"
  shows "(\<not> setItem_throws h \<longrightarrow>
            saveSetupConfig h c =
              (Inr c, h\<lparr>localStorage := (localStorage h)(SETUP_CONFIG_KEY \<mapsto> JSON_stringify c)\<rparr>)) \<and>
         (setItem_throws h \<longrightarrow> saveSetupConfig h c = (Inl StandaloneSaveFailed, h)) \<and>
         (\<forall>e. fst (saveSetupConfig h c) = Inl e \<longrightarrow> e = StandaloneSaveFailed \<and> setItem_throws h)"
  using assms by (simp add: saveSetupConfig_def)

theorem saveSetupConfig_standalone_witness:
  "isStandalone standalone_host \<and> \<not> setItem_throws standalone_host \<and>
   blank (clientId invalid_config) \<and> badEnvironment (environment invalid_config) \<and>
   blank (redirectUri invalid_config) \<and>
   fst (saveSetupConfig standalone_host invalid_config) = Inr invalid_config \<and>
   localStorage (snd (saveSetupConfig standalone_host invalid_config)) SETUP_CONFIG_KEY =
     Some (JSON_stringify invalid_config) \<and>
   isStandalone (standalone_host\<lparr>setItem_throws := True\<rparr>) \<and>
   setItem_throws (standalone_host\<lparr>setItem_throws := True\<rparr>) \<and>
   fst (saveSetupConfig (standalone_host\<lparr>setItem_throws := True\<rparr>) invalid_config) =
     Inl StandaloneSaveFailed"
proof -
  have a: "isStandalone standalone_host" "\<not> setItem_throws standalone_host"
    by (simp_all add: standalone_host_def embedded_host_def)
  have b: "isStandalone (standalone_host\<lparr>setItem_throws := True\<rparr>)"
    "setItem_throws (standalone_host\<lparr>setItem_throws := True\<rparr>)"
    by (simp_all add: standalone_host_def embedded_host_def)
  have bad: "blank (clientId invalid_config)" "badEnvironment (environment invalid_config)"
    "blank (redirectUri invalid_config)"
    by (simp_all add: blank_def badEnvironment_def invalid_config_def str_defs)
  from saveSetupConfig_standalone [OF a(1), of invalid_config] a(2)
  have r1: "saveSetupConfig standalone_host invalid_config =
      (Inr invalid_config, standalone_host\<lparr>localStorage :=
        (localStorage standalone_host)(SETUP_CONFIG_KEY \<mapsto> JSON_stringify invalid_config)\<rparr>)"
    by blast
  from saveSetupConfig_standalone [OF b(1), of invalid_config] b(2)
  have r2: "saveSetupConfig (standalone_host\<lparr>setItem_throws := True\<rparr>) invalid_config =
      (Inl StandaloneSaveFailed, standalone_host\<lparr>setItem_throws := True\<rparr>)"
    by blast
  show ?thesis unfolding r1 r2 using a b bad by simp
qed

text \<open>
  Claim C6, evaluated where it fails. In standalone mode a configuration with a client id
  is saved and is in \<open>localStorage\<close> afterwards, but \<open>getCredentials\<close> returns
  \<open>null\<close>: its first statement returns in standalone mode, so the \<open>localStorage\<close>
  block further down, which would have produced the credentials, is never reached.
\<close>

theorem getCredentials_standalone_after_save:
  "isStandalone standalone_host \<and> truthy (clientId valid_config) \<and>
   fst (saveSetupConfig standalone_host valid_config) = Inr valid_config \<and>
   localStorage (snd (saveSetupConfig standalone_host valid_config)) SETUP_CONFIG_KEY =
     Some (JSON_stringify valid_config) \<and>
   getCredentials (snd (saveSetupConfig standalone_host valid_config)) = None \<and>
   fromLocalStorage (snd (saveSetupConfig standalone_host valid_config)) =
     Some \<lparr>cred_clientId = Some ''A'', cred_environment = Some ''sandbox'',
           cred_redirectUri = Some ''https://widget.example/cb'', cred_tenantId = None,
           cred_brandCode = None, cred_source = localStorage_source\<rparr>"
  by (simp add: saveSetupConfig_def getCredentials_def fromLocalStorage_def JSON_parse_def
        JSON_stringify_def standalone_host_def embedded_host_def valid_config_def truthy_def
        orDefault_def orNull_def)

text \<open>
  Claim C5, evaluated where it fails. The shared record has a client id and no
  environment: \<open>getCredentials\<close> returns the environment \<open>null\<close>. The widget-variables
  block, on variables without environment, returns \<open>sandbox\<close>.
\<close>

theorem getCredentials_custom_module_no_default:
  "Environment__c clientId_only_record = None \<and>
   crm_module record_only_host = Some [clientId_only_record] \<and>
   getCredentials record_only_host =
     Some \<lparr>cred_clientId = Some ''A'', cred_environment = None, cred_redirectUri = None,
           cred_tenantId = None, cred_brandCode = None, cred_source = custom_module\<rparr> \<and>
   wv_environment widget_B = None \<and>
   map_option cred_environment (getCredentials widget_only_host) = Some (Some ''sandbox'')"
  by (simp add: getCredentials_def fromCustomModule_def fromWidgetVariables_def setup_defs
        record_only_host_def widget_only_host_def embedded_host_def sdk_ready_def
        clientId_only_record_def widget_B_def)

text \<open>
  Claim C3, as the code has it. In embedded mode \<open>getCredentials\<close> takes all fields from
  one source: from the shared configuration record when that has a non-empty client id,
  whatever the other sources hold; otherwise from the widget variables when they have a
  non-empty client id. No field of one source is completed from another.
\<close>

theorem getCredentials_first_source_wins:
  assumes "\<not> isStandalone h"
  shows "(getSetupConfig h = Some c \<longrightarrow> truthy (clientId c) \<longrightarrow>
            getCredentials h =
              Some \<lparr>cred_clientId = clientId c, cred_environment = environment c,
                    cred_redirectUri = redirectUri c, cred_tenantId = tenantId c,
                    cred_brandCode = brandCode c, cred_source = custom_module\<rparr>) \<and>
         ((\<forall>c. getSetupConfig h = Some c \<longrightarrow> \<not> truthy (clientId c)) \<longrightarrow>
            sdk h (clock h) = SdkReady \<longrightarrow> widgetVariables h = Resolves (Some w) \<longrightarrow>
            truthy (wv_client_id w) \<longrightarrow>
            getCredentials h =
              Some \<lparr>cred_clientId = wv_client_id w,
                    cred_environment = orDefault (wv_environment w) ''sandbox'',
                    cred_redirectUri = wv_redirect_uri w, cred_tenantId = None,
                    cred_brandCode = None, cred_source = widget_variables\<rparr>)"
  using assms
  by (auto simp: getCredentials_def fromCustomModule_def fromWidgetVariables_def
           split: option.splits)

theorem getCredentials_first_source_wins_witness:
  "\<not> isStandalone partial_record_host \<and>
   truthy (Some ''A'') \<and>
   map_option clientId (getSetupConfig partial_record_host) = Some (Some ''A'') \<and>
   wv_client_id widget_B = Some ''B'' \<and>
   urlParams partial_record_host ''client_id'' = Some ''B'' \<and>
   map_option cred_clientId (getCredentials partial_record_host) = Some (Some ''A'') \<and>
   map_option cred_source (getCredentials partial_record_host) = Some custom_module \<and>
   \<not> isStandalone widget_only_host \<and>
   getSetupConfig widget_only_host = None \<and>
   sdk widget_only_host (clock widget_only_host) = SdkReady \<and>
   widgetVariables widget_only_host = Resolves (Some widget_B) \<and>
   map_option cred_clientId (getCredentials widget_only_host) = Some (Some ''B'') \<and>
   map_option cred_source (getCredentials widget_only_host) = Some widget_variables"
proof -
  define c where "c = \<lparr>config_id = Some ''rec-1'', clientId = Some ''A'', environment = None,
     redirectUri = None, tenantId = None, brandCode = None, isActive = Some True\<rparr>"
  have emb: "\<not> isStandalone partial_record_host" "\<not> isStandalone widget_only_host"
    by (simp_all add: partial_record_host_def widget_only_host_def embedded_host_def sdk_ready_def
        clientId_only_record_def widget_B_def)
  have shared: "getSetupConfig partial_record_host = Some c" "truthy (clientId c)"
    by (simp_all add: c_def setup_defs partial_record_host_def widget_only_host_def embedded_host_def sdk_ready_def
        clientId_only_record_def widget_B_def)
  have none: "getSetupConfig widget_only_host = None"
    by (simp add: setup_defs partial_record_host_def widget_only_host_def embedded_host_def
          sdk_ready_def clientId_only_record_def widget_B_def)
  have wv: "sdk widget_only_host (clock widget_only_host) = SdkReady"
    "widgetVariables widget_only_host = Resolves (Some widget_B)" "truthy (wv_client_id widget_B)"
    by (simp_all add: partial_record_host_def widget_only_host_def embedded_host_def sdk_ready_def
        clientId_only_record_def widget_B_def truthy_def)
  from getCredentials_first_source_wins [OF emb(1), of c] shared
  have r1: "getCredentials partial_record_host =
      Some \<lparr>cred_clientId = clientId c, cred_environment = environment c,
            cred_redirectUri = redirectUri c, cred_tenantId = tenantId c,
            cred_brandCode = brandCode c, cred_source = custom_module\<rparr>"
    by blast
  from getCredentials_first_source_wins [OF emb(2), of _ widget_B] none wv
  have r2: "getCredentials widget_only_host =
      Some \<lparr>cred_clientId = wv_client_id widget_B,
            cred_environment = orDefault (wv_environment widget_B) ''sandbox'',
            cred_redirectUri = wv_redirect_uri widget_B, cred_tenantId = None,
            cred_brandCode = None, cred_source = widget_variables\<rparr>"
    by simp
  have url: "urlParams partial_record_host ''client_id'' = Some ''B''"
    by (simp add: partial_record_host_def widget_only_host_def embedded_host_def sdk_ready_def
        clientId_only_record_def widget_B_def)
  show ?thesis
    unfolding r1 r2 using emb shared(1) none wv url
    by (simp add: c_def widget_B_def truthy_def)
qed

text \<open>
  Claim C3 as stated fails where sources are partial. The shared record has a client
  id and no redirect URI; the widget variables have a redirect URI. A field-by-field
  merge gives that redirect URI; \<open>getCredentials\<close> gives
  \<open>null\<close>.
\<close>

theorem getCredentials_not_fieldwise:
  "sf_clientId (shared_source partial_record_host) = Some ''A'' \<and>
   sf_redirectUri (shared_source partial_record_host) = None \<and>
   sf_redirectUri (widget_source partial_record_host) = Some ''https://widget.example/cb'' \<and>
   sf_redirectUri (resolve_fieldwise (sources partial_record_host)) =
     Some ''https://widget.example/cb'' \<and>
   map_option cred_redirectUri (getCredentials partial_record_host) = Some None"
  by (simp add: getCredentials_def fromCustomModule_def resolve_fieldwise_def firstNonEmpty_def
        shared_source_def widget_source_def url_source_def local_source_def sources_def
        no_source_def setup_defs partial_record_host_def embedded_host_def sdk_ready_def
        clientId_only_record_def widget_B_def)

text \<open>
  Claim C4, as the code has it. In embedded mode \<open>getCredentials\<close> returns \<open>null\<close>
  exactly when neither the shared record nor the widget variables have a non-empty
  client id; whenever it returns credentials, their client id is non-empty. The redirect
  URI is not looked at.
\<close>

theorem getCredentials_none_iff:
  assumes "\<not> isStandalone h"
  shows "(getCredentials h = None) =
           ((\<forall>c. getSetupConfig h = Some c \<longrightarrow> \<not> truthy (clientId c)) \<and>
            (\<forall>w. sdk h (clock h) = SdkReady \<longrightarrow> widgetVariables h = Resolves (Some w) \<longrightarrow>
                 \<not> truthy (wv_client_id w))) \<and>
         (getCredentials h = Some r \<longrightarrow> truthy (cred_clientId r))"
  using assms
  by (auto simp: getCredentials_def fromCustomModule_def fromWidgetVariables_def
           split: option.splits promise.splits if_splits)

theorem getCredentials_none_iff_witness:
  "\<not> isStandalone embedded_host \<and> getSetupConfig embedded_host = None \<and>
   widgetVariables embedded_host = Resolves None \<and>
   getCredentials embedded_host = None \<and>
   \<not> isStandalone record_only_host \<and>
   (\<exists>r. getCredentials record_only_host = Some r \<and> truthy (cred_clientId r))"
proof -
  have e: "\<not> isStandalone embedded_host" "getSetupConfig embedded_host = None"
    "widgetVariables embedded_host = Resolves None"
    by (simp_all add: setup_defs embedded_host_def sdk_ready_def)
  have e2: "\<not> isStandalone record_only_host"
    by (simp add: record_only_host_def embedded_host_def)
  from e have r1: "getCredentials embedded_host = None"
    using getCredentials_none_iff [OF e(1)] by simp
  obtain r where r: "getCredentials record_only_host = Some r"
    by (simp add: getCredentials_def fromCustomModule_def setup_defs record_only_host_def
          embedded_host_def sdk_ready_def clientId_only_record_def)
  then have "truthy (cred_clientId r)"
    using getCredentials_none_iff [OF e2, of r] by simp
  with r e e2 r1 show ?thesis by simp
qed

text \<open>
  Claim C4 as stated fails where the redirect URI is missing. The shared record has a
  client id and no redirect URI, and no other source has one:
  \<open>getCredentials\<close> succeeds, with the redirect URI \<open>null\<close>.
\<close>

theorem getCredentials_without_redirectUri:
  "sf_redirectUri (resolve_fieldwise (sources record_only_host)) = None \<and>
   getCredentials record_only_host \<noteq> None \<and>
   map_option cred_redirectUri (getCredentials record_only_host) = Some None"
  by (simp add: getCredentials_def fromCustomModule_def resolve_fieldwise_def firstNonEmpty_def
        shared_source_def widget_source_def url_source_def local_source_def sources_def
        no_source_def setup_defs record_only_host_def embedded_host_def sdk_ready_def
        clientId_only_record_def)

end
